theory Spec2Isabelle
  imports Main "HOL-Library.List_Lexorder" "HOL-Library.Char_ord" "HOL-Library.Product_Lexorder"
begin

section \<open>soccer-cli: the command-line client of src/soccer/main.py\<close>

text \<open>
  The program talks to two web services, prints messages with click, calls one method
  of a writer object and, in the live mode, sleeps between two polls. Each of these
  effects is an event; a handler is a function from its arguments and the environment
  (the static tables and the answers of the two services) to the list of events it
  performs, in order, and its outcome: a normal return or the exception that leaves it.
  The colours and the bold face of click.secho are cosmetic and are not recorded; the
  header with the API token, which every request to the statistics service carries, is
  not recorded either.
\<close>

subsection \<open>Data\<close>

text \<open>Fields of a decoded JSON object that no handler reads: key and value as text.\<close>

type_synonym obj = "(string \<times> string) list"

text \<open>
  The decoded body of an answer of the statistics service. The handlers read three
  keys; a key that is absent is \<open>None\<close>, and subscripting it raises KeyError.
\<close>

record body =
  fixtures :: "obj list option"
  currentMatchday :: "int option"
  count :: "int option"
  rest :: obj

record response =
  status_code :: int
  json :: body

text \<open>A live game and the decoded body of the live service.\<close>

record game =
  g_league :: string
  g_fields :: obj

record scores =
  games :: "game list"
  other :: obj

record live_response =
  live_status :: int
  live_json :: scores

text \<open>An entry of teams.json and an entry of leagues.json.\<close>

record team =
  t_code :: string
  t_id :: int
  t_name :: string
  t_league :: string

record league_entry =
  l_code :: string
  l_name :: string

datatype exn =
    APIErrorException string
  | IncorrectParametersException string
  | AttributeError string
  | KeyError string

text \<open>The six methods of a writer, with the arguments of the call.\<close>

datatype writer_call =
    Live_scores scores bool
  | Team_scores body int bool bool
  | League_scores body int bool bool
  | Standings body string
  | Standings_extended body string
  | Team_players body

datatype 'w event =
    Requests_get string
  | Secho string
  | Echo
  | Sleep int
  | Get_writer string "string option"
  | Writer_call 'w writer_call

type_synonym 'w run = "'w event list \<times> (exn + unit)"

text \<open>
  The environment: the module-level tables (those of leagueids, leaguenameslive and
  leaguekeys, and the two JSON files, are not part of main.py and are parameters), the
  answer of the statistics service to a path, the answer of the live service to the
  n-th request made to it, and get_writer of soccer.writers.
\<close>

record 'w env =
  TEAM_DATA :: "team list"
  LEAGUE_DATA :: "league_entry list"
  LEAGUE_IDS :: "string \<rightharpoonup> int"
  LEAGUE_NAMES :: "string \<rightharpoonup> string"
  LEAGUE_KEYS :: "string \<rightharpoonup> string"
  net :: "string \<Rightarrow> response"
  live_net :: "nat \<Rightarrow> live_response"
  get_writer :: "string \<Rightarrow> string option \<Rightarrow> exn + 'w"

definition BASE_URL :: string where
  "BASE_URL = ''http://api.football-data.org/v1/''"

definition LIVE_URL :: string where
  "LIVE_URL = ''http://soccer-cli.appspot.com/''"

definition LIVE_LEAGUES_URL :: string where
  "LIVE_LEAGUES_URL = ''http://soccer-cli.appspot.com/''"

text \<open>
  TEAM_NAMES is built by a dict comprehension over TEAM_DATA: of two entries with the
  same code the later one stays.
\<close>

definition TEAM_NAMES :: "'w env \<Rightarrow> string \<rightharpoonup> int" where
  "TEAM_NAMES e = map_of (rev (map (\<lambda>t. (t_code t, t_id t)) (TEAM_DATA e)))"

subsection \<open>Formatting and truth values\<close>

fun str_nat :: "nat \<Rightarrow> string" where
  "str_nat n = (if n < 10 then [''0123456789'' ! n]
                else str_nat (n div 10) @ [''0123456789'' ! (n mod 10)])"

declare str_nat.simps [simp del]

definition str_int :: "int \<Rightarrow> string" where
  "str_int i = (if i < 0 then CHR ''-'' # str_nat (nat (- i)) else str_nat (nat i))"

text \<open>What format writes for a value that is an integer or None.\<close>

definition str_opt :: "int option \<Rightarrow> string" where
  "str_opt v = (case v of None \<Rightarrow> ''None'' | Some i \<Rightarrow> str_int i)"

text \<open>The truth value Python gives a string or None, and an integer or None.\<close>

definition truthy :: "string option \<Rightarrow> bool" where
  "truthy v = (case v of None \<Rightarrow> False | Some s \<Rightarrow> s \<noteq> [])"

definition truthy_id :: "int option \<Rightarrow> bool" where
  "truthy_id v = (case v of None \<Rightarrow> False | Some i \<Rightarrow> i \<noteq> 0)"

subsection \<open>The API client\<close>

text \<open>
  What \<open>_get\<close> does with the answer it receives. The last test of the source reads
  \<open>req.status_codes\<close>, an attribute that a response does not have, so every answer
  that reaches it raises AttributeError.
\<close>

definition get_response :: "response \<Rightarrow> exn + response" where
  "get_response req =
     (if status_code req = 200 then Inr req
      else if status_code req = 400 then
        Inl (APIErrorException ''Invalid request. Check parameters.'')
      else if status_code req = 403 then
        Inl (APIErrorException ''This resource is restricted'')
      else if status_code req = 404 then
        Inl (APIErrorException ''This resource does not exist. Check parameters'')
      else Inl (AttributeError ''status_codes''))"

text \<open>\<open>_get\<close>: the request that is made, and its result.\<close>

definition api_get :: "'w env \<Rightarrow> string \<Rightarrow> 'w event list \<times> (exn + response)" where
  "api_get e url = ([Requests_get (BASE_URL @ url)], get_response (net e url))"

text \<open>
  The clause \<open>except APIErrorException\<close> around a handler's body: the events so far,
  the exception, and the message the clause prints.
\<close>

definition except_api :: "'w event list \<Rightarrow> exn \<Rightarrow> (string \<Rightarrow> string) \<Rightarrow> 'w run" where
  "except_api evs x msg =
     (case x of
        APIErrorException m \<Rightarrow> (evs @ [Secho (msg m)], Inr ())
      | _ \<Rightarrow> (evs, Inl x))"

subsection \<open>The live handlers\<close>

text \<open>
  The loop of get_live_scores over the games: a game whose league is a key of
  LEAGUE_KEYS gets the value as its league, any other game stays as it is.
\<close>

fun relabel_games :: "(string \<rightharpoonup> string) \<Rightarrow> game list \<Rightarrow> game list" where
  "relabel_games keys [] = []"
| "relabel_games keys (g # gs) =
     (case keys (g_league g) of
        Some k \<Rightarrow> g\<lparr>g_league := k\<rparr> # relabel_games keys gs
      | None \<Rightarrow> g # relabel_games keys gs)"

text \<open>The lines printed before the sleep.\<close>

definition refresh_banner :: "int \<Rightarrow> 'w event list" where
  "refresh_banner refresh =
     [Echo, Secho ''-------- Next refresh in '', Secho (str_int refresh @ '' seconds''),
      Secho '' --------'', Echo, Echo]"

text \<open>
  get_live_scores calls itself after the sleep, so it may run forever. The first
  argument bounds the number of requests; when it is used up the outcome is \<open>None\<close>
  and the events are those performed so far. The argument \<open>n\<close> counts the requests
  already made to the live service.
\<close>

fun get_live_scores ::
  "nat \<Rightarrow> 'w env \<Rightarrow> nat \<Rightarrow> 'w \<Rightarrow> bool \<Rightarrow> int \<Rightarrow> 'w event list \<times> (exn + unit) option" where
  "get_live_scores 0 e n writer use_12_hour_format refresh = ([], None)"
| "get_live_scores (Suc fuel) e n writer use_12_hour_format refresh =
     (let req = live_net e n in
      if live_status req = 200 then
        (let scores = live_json req in
         if length (games scores) = 0 then
           ([Requests_get LIVE_URL, Secho ''No live action currently''], Some (Inr ()))
         else
           (let scores' = scores\<lparr>games := relabel_games (LEAGUE_KEYS e) (games scores)\<rparr>;
                evs = [Requests_get LIVE_URL,
                       Writer_call writer (Live_scores scores' use_12_hour_format)]
            in if refresh > 0 then
                 (case get_live_scores fuel e (Suc n) writer use_12_hour_format refresh of
                    (evs', out) \<Rightarrow> (evs @ refresh_banner refresh @ Sleep refresh # evs', out))
               else (evs, Some (Inr ()))))
      else ([Requests_get LIVE_URL, Secho ''There was problem getting live scores''],
            Some (Inr ())))"

text \<open>
  The loop of get_live_league: the games of the league are appended to the new list,
  with the league code as their league. LEAGUE_NAMES is subscripted at every game, so a
  league that is not one of its keys raises KeyError at the first game.
\<close>

fun filter_games ::
  "(string \<rightharpoonup> string) \<Rightarrow> string \<Rightarrow> game list \<Rightarrow> game list \<Rightarrow> exn + game list" where
  "filter_games names league [] acc = Inr acc"
| "filter_games names league (g # gs) acc =
     (case names league of
        None \<Rightarrow> Inl (KeyError league)
      | Some nm \<Rightarrow>
          if g_league g = nm
          then filter_games names league gs (acc @ [g\<lparr>g_league := league\<rparr>])
          else filter_games names league gs acc)"

fun get_live_league ::
  "nat \<Rightarrow> 'w env \<Rightarrow> nat \<Rightarrow> 'w \<Rightarrow> bool \<Rightarrow> string \<Rightarrow> int
     \<Rightarrow> 'w event list \<times> (exn + unit) option" where
  "get_live_league 0 e n writer use_12_hour_format league refresh = ([], None)"
| "get_live_league (Suc fuel) e n writer use_12_hour_format league refresh =
     (let req = live_net e n in
      if live_status req = 200 then
        (let scores = live_json req in
         if length (games scores) = 0 then
           ([Requests_get LIVE_LEAGUES_URL, Secho ''No live action currently''],
            Some (Inr ()))
         else
           (case filter_games (LEAGUE_NAMES e) league (games scores) [] of
              Inl x \<Rightarrow> ([Requests_get LIVE_LEAGUES_URL], Some (Inl x))
            | Inr kept \<Rightarrow>
                if length kept = 0 then
                  ([Requests_get LIVE_LEAGUES_URL,
                    Secho (''No live action currently for '' @ league @ ''.'')],
                   Some (Inr ()))
                else
                  (let filtered_scores = \<lparr>games = kept, other = []\<rparr>;
                       evs = [Requests_get LIVE_LEAGUES_URL,
                              Writer_call writer
                                (Live_scores filtered_scores use_12_hour_format)]
                   in if refresh > 0 then
                        (case get_live_league fuel e (Suc n) writer use_12_hour_format
                                league refresh of
                           (evs', out) \<Rightarrow> (evs @ refresh_banner refresh @ Sleep refresh # evs', out))
                      else (evs, Some (Inr ())))))
      else ([Requests_get LIVE_LEAGUES_URL,
             Secho ''There was problem getting live scores''], Some (Inr ())))"

subsection \<open>The handlers of the statistics service\<close>

definition get_team_scores ::
  "'w env \<Rightarrow> string \<Rightarrow> int \<Rightarrow> 'w \<Rightarrow> bool \<Rightarrow> bool \<Rightarrow> 'w run" where
  "get_team_scores e team time writer show_upcoming use_12_hour_format =
     (let team_id = TEAM_NAMES e team;
          time_frame = (if show_upcoming then ''n'' else ''p'')
      in if truthy_id team_id then
           (case api_get e (''teams/'' @ str_opt team_id @ ''/fixtures?timeFrame=''
                             @ time_frame @ str_int time) of
              (evs, Inl x) \<Rightarrow> except_api evs x (\<lambda>m. m)
            | (evs, Inr req) \<Rightarrow>
                (case fixtures (json req) of
                   None \<Rightarrow> (evs, Inl (KeyError ''fixtures''))
                 | Some fs \<Rightarrow>
                     if length fs = 0 then
                       (evs @ [Secho (''No action during ''
                                 @ (if show_upcoming then ''next'' else ''past'') @ '' ''
                                 @ str_int time
                                 @ '' days. Change the time parameter to get more fixtures.'')],
                        Inr ())
                     else
                       (evs @ [Writer_call writer
                                 (Team_scores (json req) time show_upcoming
                                    use_12_hour_format)],
                        Inr ())))
         else ([Secho ''Team code is not correct.''], Inr ()))"

text \<open>The body of get_standings and of get_matchday_standings after the request.\<close>

definition write_standings :: "'w \<Rightarrow> bool \<Rightarrow> body \<Rightarrow> string \<Rightarrow> 'w event" where
  "write_standings writer extended b league =
     (if extended then Writer_call writer (Standings_extended b league)
      else Writer_call writer (Standings b league))"

definition no_standings :: "string \<Rightarrow> string" where
  "no_standings league = ''No standings availble for '' @ league @ ''.''"

definition get_matchday_standings ::
  "'w env \<Rightarrow> string \<Rightarrow> 'w \<Rightarrow> bool \<Rightarrow> int \<Rightarrow> 'w run" where
  "get_matchday_standings e league writer extended matchday =
     (case LEAGUE_IDS e league of
        None \<Rightarrow> ([], Inl (KeyError league))
      | Some league_id \<Rightarrow>
          (case api_get e (''competitions/'' @ str_int league_id) of
             (evs, Inl x) \<Rightarrow> except_api evs x (\<lambda>m. no_standings league)
           | (evs, Inr req) \<Rightarrow>
               (case currentMatchday (json req) of
                  None \<Rightarrow> (evs, Inl (KeyError ''currentMatchday''))
                | Some current \<Rightarrow>
                    if current < matchday then
                      (evs @ [Secho (''The current matchday for this league is ''
                                @ str_int current
                                @ '', introduce a value that is less than or equal to it.'')],
                       Inr ())
                    else
                      (case api_get e (''competitions/'' @ str_int league_id
                                        @ ''/leagueTable/?matchday='' @ str_int matchday) of
                         (evs', Inl x) \<Rightarrow>
                           except_api (evs @ evs') x (\<lambda>m. no_standings league)
                       | (evs', Inr req') \<Rightarrow>
                           (evs @ evs' @ [write_standings writer extended (json req') league],
                            Inr ())))))"

definition get_standings :: "'w env \<Rightarrow> string \<Rightarrow> 'w \<Rightarrow> bool \<Rightarrow> 'w run" where
  "get_standings e league writer extended =
     (case LEAGUE_IDS e league of
        None \<Rightarrow> ([], Inl (KeyError league))
      | Some league_id \<Rightarrow>
          (case api_get e (''competitions/'' @ str_int league_id @ ''/leagueTable'') of
             (evs, Inl x) \<Rightarrow> except_api evs x (\<lambda>m. no_standings league)
           | (evs, Inr req) \<Rightarrow>
               (evs @ [write_standings writer extended (json req) league], Inr ())))"

text \<open>
  get_league_scores. The league is a string or None; with a league the lookup of its
  id is inside the try block, and KeyError is not among the exceptions caught there.
\<close>

definition get_league_scores ::
  "'w env \<Rightarrow> string option \<Rightarrow> int \<Rightarrow> 'w \<Rightarrow> bool \<Rightarrow> bool \<Rightarrow> 'w run" where
  "get_league_scores e league time writer show_upcoming use_12_hour_format =
     (let time_frame = (if show_upcoming then ''n'' else ''p'');
          all_leagues =
            (case api_get e (''fixtures?timeFrame='' @ time_frame @ str_int time) of
               (evs, Inl x) \<Rightarrow> except_api evs x (\<lambda>m. ''No data available.'')
             | (evs, Inr req) \<Rightarrow>
                 (evs @ [Writer_call writer
                           (League_scores (json req) time show_upcoming
                              use_12_hour_format)],
                  Inr ()))
      in case league of
           None \<Rightarrow> all_leagues
         | Some code \<Rightarrow>
             if code = [] then all_leagues
             else
               (case LEAGUE_IDS e code of
                  None \<Rightarrow> ([], Inl (KeyError code))
                | Some league_id \<Rightarrow>
                    (case api_get e (''competitions/'' @ str_int league_id
                                      @ ''/fixtures?timeFrame='' @ time_frame
                                      @ str_int time) of
                       (evs, Inl x) \<Rightarrow>
                         except_api evs x (\<lambda>m. ''No data for the given league.'')
                     | (evs, Inr req) \<Rightarrow>
                         (case fixtures (json req) of
                            None \<Rightarrow> (evs, Inl (KeyError ''fixtures''))
                          | Some fs \<Rightarrow>
                              if length fs = 0 then
                                (evs @ [Secho (''No '' @ code @ '' matches in the ''
                                          @ (if show_upcoming then ''next'' else ''past'')
                                          @ '' '' @ str_int time @ '' days.'')],
                                 Inr ())
                              else
                                (evs @ [Writer_call writer
                                          (League_scores (json req) time show_upcoming
                                             use_12_hour_format)],
                                 Inr ())))))"

definition get_team_players :: "'w env \<Rightarrow> string \<Rightarrow> 'w \<Rightarrow> 'w run" where
  "get_team_players e team writer =
     (let team_id = TEAM_NAMES e team
      in case api_get e (''teams/'' @ str_opt team_id @ ''/players'') of
           (evs, Inl x) \<Rightarrow>
             except_api evs x (\<lambda>m. ''No data for the team. Please check the team code.'')
         | (evs, Inr req) \<Rightarrow>
             (case count (json req) of
                None \<Rightarrow> (evs, Inl (KeyError ''count''))
              | Some c \<Rightarrow>
                  if c = 0 then (evs @ [Secho ''No players found for this team''], Inr ())
                  else (evs @ [Writer_call writer (Team_players (json req))], Inr ())))"

text \<open>map_team_id: the loop over TEAM_DATA with its else clause.\<close>

fun map_team_id_loop :: "team list \<Rightarrow> string \<Rightarrow> 'w event list" where
  "map_team_id_loop [] code = [Secho ''No team found for this code'']"
| "map_team_id_loop (t # ts) code =
     (if t_code t = code then [Secho (t_name t)] else map_team_id_loop ts code)"

definition map_team_id :: "'w env \<Rightarrow> string \<Rightarrow> 'w run" where
  "map_team_id e code = (map_team_id_loop (TEAM_DATA e) code, Inr ())"

subsection \<open>The listings\<close>

text \<open>
  list_team_codes sorts the teams by league name and code, and prints, for each league
  name in order, the name, the teams of the league whose code is not the text null, and
  an empty line.
\<close>

definition list_team_codes :: "'w env \<Rightarrow> 'w run" where
  "list_team_codes e =
     (let cleanlist = sort_key (\<lambda>k. (t_league k, t_code k)) (TEAM_DATA e);
          leaguenames = sort (remdups (map t_league cleanlist))
      in (concat (map (\<lambda>league.
                    Secho league
                    # map (\<lambda>t. Secho (t_code t @ '': '' @ t_name t))
                        (filter (\<lambda>t. t_code t \<noteq> ''null'')
                           (filter (\<lambda>t. t_league t = league) cleanlist))
                    @ [Secho []])
                  leaguenames),
          Inr ()))"

definition list_league_codes :: "'w env \<Rightarrow> 'w run" where
  "list_league_codes e =
     (map (\<lambda>l. Secho (l_code l @ '': '' @ l_name l)) (LEAGUE_DATA e), Inr ())"

subsection \<open>The command\<close>

text \<open>The values click passes to main, one field for each option.\<close>

record options =
  o_league :: "string option"
  o_time :: int
  o_standings :: bool
  o_extended :: bool
  o_matchday :: int
  o_team :: "string option"
  o_live :: bool
  o_refresh :: int
  o_use12hour :: bool
  o_players :: bool
  o_output_format :: string
  o_output_file :: "string option"
  o_upcoming :: bool
  o_lookup :: bool
  o_listcodes :: bool
  o_listleagues :: bool
  o_apikey :: string

definition finished :: "'w run \<Rightarrow> 'w event list \<times> (exn + unit) option" where
  "finished r = (fst r, Some (snd r))"

text \<open>The actions of main once the writer exists.\<close>

definition dispatch ::
  "nat \<Rightarrow> 'w env \<Rightarrow> options \<Rightarrow> 'w \<Rightarrow> 'w event list \<times> (exn + unit) option" where
  "dispatch fuel e opts writer =
     (if o_listcodes opts then finished (list_team_codes e)
      else if o_listleagues opts then finished (list_league_codes e)
      else if o_live opts then
        (if truthy (o_league opts) then
           get_live_league fuel e 0 writer (o_use12hour opts) (the (o_league opts))
             (o_refresh opts)
         else get_live_scores fuel e 0 writer (o_use12hour opts) (o_refresh opts))
      else if o_standings opts then
        (if \<not> truthy (o_league opts) then
           ([], Some (Inl (IncorrectParametersException
                  ''Please specify a league. Example --standings --league=EPL'')))
         else if o_matchday opts > 0 then
           finished (get_matchday_standings e (the (o_league opts)) writer
                       (o_extended opts) (o_matchday opts))
         else finished (get_standings e (the (o_league opts)) writer (o_extended opts)))
      else if o_time opts < 1 then
        ([], Some (Inl (IncorrectParametersException
               ''Please specify a time value greater than 0.'')))
      else if truthy (o_team opts) then
        (if o_lookup opts then finished (map_team_id e (the (o_team opts)))
         else if o_players opts then
           finished (get_team_players e (the (o_team opts)) writer)
         else finished (get_team_scores e (the (o_team opts)) (o_time opts) writer
                          (o_upcoming opts) (o_use12hour opts)))
      else finished (get_league_scores e (o_league opts) (o_time opts) writer
                       (o_upcoming opts) (o_use12hour opts)))"

text \<open>The try block of main.\<close>

definition main_try ::
  "nat \<Rightarrow> 'w env \<Rightarrow> options \<Rightarrow> 'w event list \<times> (exn + unit) option" where
  "main_try fuel e opts =
     (if o_output_format opts = ''stdout'' \<and> truthy (o_output_file opts) then
        ([], Some (Inl (IncorrectParametersException
               ''Printing output to stdout and saving to a file are mutually exclusive'')))
      else
        (case get_writer e (o_output_format opts) (o_output_file opts) of
           Inl x \<Rightarrow> ([Get_writer (o_output_format opts) (o_output_file opts)], Some (Inl x))
         | Inr writer \<Rightarrow>
             (case dispatch fuel e opts writer of
                (evs, out) \<Rightarrow>
                  (Get_writer (o_output_format opts) (o_output_file opts) # evs, out))))"

text \<open>main: the try block and its clause for IncorrectParametersException.\<close>

definition main :: "nat \<Rightarrow> 'w env \<Rightarrow> options \<Rightarrow> 'w event list \<times> (exn + unit) option" where
  "main fuel e opts =
     (case main_try fuel e opts of
        (evs, Some (Inl (IncorrectParametersException m))) \<Rightarrow>
          (evs @ [Secho m], Some (Inr ()))
      | r \<Rightarrow> r)"

subsection \<open>What a trace contains\<close>

fun is_request :: "'w event \<Rightarrow> bool" where
  "is_request (Requests_get u) = True"
| "is_request _ = False"

fun is_writer_call :: "'w event \<Rightarrow> bool" where
  "is_writer_call (Writer_call w c) = True"
| "is_writer_call _ = False"

fun is_get_writer :: "'w event \<Rightarrow> bool" where
  "is_get_writer (Get_writer f p) = True"
| "is_get_writer _ = False"

subsection \<open>An example environment\<close>

text \<open>
  A small environment on which the handlers are run below: one team, one league with
  the id 426 whose current matchday is 10, a statistics service that answers 404 to
  every path it does not know, and a live service that has three games at the first
  request and none afterwards. get_writer returns the name of the format as the writer.
\<close>

definition example_body :: body where
  "example_body = \<lparr>fixtures = None, currentMatchday = None, count = None, rest = []\<rparr>"

definition example_net :: "string \<Rightarrow> response" where
  "example_net url =
     (if url = ''fixtures?timeFrame=p6'' then
        \<lparr>status_code = 200, json = example_body\<lparr>fixtures := Some []\<rparr>\<rparr>
      else if url = ''competitions/426'' then
        \<lparr>status_code = 200, json = example_body\<lparr>currentMatchday := Some 10\<rparr>\<rparr>
      else if url = ''competitions/426/leagueTable/?matchday=3'' then
        \<lparr>status_code = 200, json = example_body\<lparr>rest := [(''leagueCaption'', ''Premier League'')]\<rparr>\<rparr>
      else if url = ''competitions/426/leagueTable'' then
        \<lparr>status_code = 200, json = example_body\<lparr>rest := [(''leagueCaption'', ''Premier League'')]\<rparr>\<rparr>
      else \<lparr>status_code = 404, json = example_body\<rparr>)"

definition example_games :: "game list" where
  "example_games =
     [\<lparr>g_league = ''Premier League'', g_fields = [(''homeTeamName'', ''Arsenal'')]\<rparr>,
      \<lparr>g_league = ''Friendly'', g_fields = [(''homeTeamName'', ''Ajax'')]\<rparr>,
      \<lparr>g_league = ''Premier League'', g_fields = [(''homeTeamName'', ''Everton'')]\<rparr>]"

definition example_live :: "nat \<Rightarrow> live_response" where
  "example_live n =
     (if n = 0 then \<lparr>live_status = 200, live_json = \<lparr>games = example_games, other = []\<rparr>\<rparr>
      else \<lparr>live_status = 200, live_json = \<lparr>games = [], other = []\<rparr>\<rparr>)"

definition example_env :: "string env" where
  "example_env =
     \<lparr>TEAM_DATA = [\<lparr>t_code = ''AFC'', t_id = 57, t_name = ''Arsenal FC'',
                    t_league = ''Premier League''\<rparr>],
      LEAGUE_DATA = [\<lparr>l_code = ''EPL'', l_name = ''Premier League''\<rparr>],
      LEAGUE_IDS = [''EPL'' \<mapsto> 426],
      LEAGUE_NAMES = [''EPL'' \<mapsto> ''Premier League'', ''BL'' \<mapsto> ''Bundesliga''],
      LEAGUE_KEYS = [''Premier League'' \<mapsto> ''EPL''],
      net = example_net,
      live_net = example_live,
      get_writer = (\<lambda>f p. Inr f)\<rparr>"

text \<open>The values of the options when no option is given.\<close>

definition example_options :: options where
  "example_options =
     \<lparr>o_league = None, o_time = 6, o_standings = False, o_extended = False,
      o_matchday = - 1, o_team = None, o_live = False, o_refresh = - 1,
      o_use12hour = False, o_players = False, o_output_format = ''stdout'',
      o_output_file = None, o_upcoming = False, o_lookup = False, o_listcodes = False,
      o_listleagues = False, o_apikey = ''0123456789abcdef0123456789abcdef''\<rparr>"

section \<open>Properties\<close>

subsection \<open>The API client\<close>

lemma get_response_handled:
  "get_response (r\<lparr>status_code := 200\<rparr>) = Inr (r\<lparr>status_code := 200\<rparr>)"
  "get_response (r\<lparr>status_code := 400\<rparr>) = Inl (APIErrorException ''Invalid request. Check parameters.'')"
  "get_response (r\<lparr>status_code := 403\<rparr>) = Inl (APIErrorException ''This resource is restricted'')"
  "get_response (r\<lparr>status_code := 404\<rparr>) = Inl (APIErrorException ''This resource does not exist. Check parameters'')"
  by (simp_all add: get_response_def)

lemma get_response_other:
  "status_code r \<notin> {200, 400, 403, 404} \<Longrightarrow> get_response r = Inl (AttributeError ''status_codes'')"
  by (simp add: get_response_def)

lemma get_response_Inr: "get_response r = Inr r' \<longleftrightarrow> status_code r = 200 \<and> r' = r"
  by (auto simp add: get_response_def)

text \<open>
  C1. The claim: \<open>_get\<close> maps the status 429 to the error for an exceeded rate limit,
  and every other status that is not a success to a generic error. The code: the test
  for 429 reads the attribute \<open>status_codes\<close>, which a response does not have, so
  at the status 429 (and at every status other than 200, 400, 403 and 404) the
  function raises AttributeError, which no handler catches, and the message about the
  exceeded rate limit is never produced.
\<close>

theorem get_response_too_many_requests:
  "get_response \<lparr>status_code = 429, json = b\<rparr> = Inl (AttributeError ''status_codes'')"
  by (simp add: get_response_def)

subsection \<open>Team codes that are not in the table\<close>

lemma TEAM_NAMES_dom: "dom (TEAM_NAMES e) = t_code ` set (TEAM_DATA e)"
  by (force simp add: TEAM_NAMES_def dom_map_of_conv_image_fst image_image)

lemma TEAM_NAMES_None: "code \<notin> t_code ` set (TEAM_DATA e) \<Longrightarrow> TEAM_NAMES e code = None"
  using TEAM_NAMES_dom [of e] by blast

lemma get_team_scores_unknown:
  "code \<notin> t_code ` set (TEAM_DATA e) \<Longrightarrow>
   get_team_scores e code time w up fmt = ([Secho ''Team code is not correct.''], Inr ())"
  by (simp add: get_team_scores_def TEAM_NAMES_None truthy_id_def)

lemma map_team_id_loop_unknown:
  "code \<notin> t_code ` set ts \<Longrightarrow> map_team_id_loop ts code = [Secho ''No team found for this code'']"
  by (induction ts) auto

lemma map_team_id_unknown:
  "code \<notin> t_code ` set (TEAM_DATA e) \<Longrightarrow>
   map_team_id e code = ([Secho ''No team found for this code''], Inr ())"
  by (simp add: map_team_id_def map_team_id_loop_unknown)

lemma get_team_players_unknown:
  "code \<notin> t_code ` set (TEAM_DATA e) \<Longrightarrow>
   take 1 (fst (get_team_players e code w)) = [Requests_get (BASE_URL @ ''teams/None/players'')]"
  by (simp add: get_team_players_def TEAM_NAMES_None str_opt_def api_get_def except_api_def
      split: sum.splits exn.splits option.splits)


subsection \<open>The loops of the live handlers\<close>

lemma relabel_games_map:
  "relabel_games keys gs =
     map (\<lambda>g. case keys (g_league g) of Some k \<Rightarrow> g\<lparr>g_league := k\<rparr> | None \<Rightarrow> g) gs"
  by (induction gs) (auto split: option.splits)

lemma filter_games_acc:
  "names league = Some nm \<Longrightarrow>
   filter_games names league gs acc =
     Inr (acc @ map (\<lambda>g. g\<lparr>g_league := league\<rparr>) (filter (\<lambda>g. g_league g = nm) gs))"
  by (induction gs arbitrary: acc) auto

lemma filter_games_unknown:
  "names league = None \<Longrightarrow> gs \<noteq> [] \<Longrightarrow> filter_games names league gs acc = Inl (KeyError league)"
  by (cases gs) auto

subsection \<open>Empty results\<close>

text \<open>
  With a league, get_league_scores prints a message for an empty list of fixtures and
  does not call the writer.
\<close>

lemma get_league_scores_league_empty:
  "LEAGUE_IDS e code = Some i \<Longrightarrow> code \<noteq> [] \<Longrightarrow>
   status_code (net e (''competitions/'' @ str_int i @ ''/fixtures?timeFrame=''
                        @ (if up then ''n'' else ''p'') @ str_int time)) = 200 \<Longrightarrow>
   fixtures (json (net e (''competitions/'' @ str_int i @ ''/fixtures?timeFrame=''
                        @ (if up then ''n'' else ''p'') @ str_int time))) = Some [] \<Longrightarrow>
   filter is_writer_call (fst (get_league_scores e (Some code) time w up fmt)) = []"
  by (simp add: get_league_scores_def api_get_def get_response_def)

text \<open>
  C3. The claim: every handler, given an empty result, prints a message and does not
  call the writer, and this holds for both branches of get_league_scores. The code: the
  branch for all leagues has no test of the number of fixtures, unlike the branch for
  one league and unlike get_team_scores: with the answer 200 and an empty list of
  fixtures it calls writer.league_scores with the empty result and prints no message.
\<close>

theorem get_league_scores_all_leagues_empty:
  "fixtures (json (example_net ''fixtures?timeFrame=p6'')) = Some [] \<and>
   get_league_scores example_env None 6 ''stdout'' False False =
     ([Requests_get ''http://api.football-data.org/v1/fixtures?timeFrame=p6'',
       Writer_call ''stdout''
         (League_scores \<lparr>fixtures = Some [], currentMatchday = None, count = None, rest = []\<rparr>
            6 False False)],
      Inr ())"
  by (simp add: get_league_scores_def example_env_def api_get_def BASE_URL_def str_int_def
      str_nat.simps example_net_def get_response_def except_api_def example_body_def)

subsection \<open>The matchday guard\<close>

text \<open>
  C4. When the competition is looked up with success and reports the current matchday:
  for a requested matchday greater than the current one, get_matchday_standings prints
  the current matchday and makes no second request; for a requested matchday up to the
  current one, its second event is the request of the league table of that matchday.
\<close>

theorem matchday_guard:
  assumes "LEAGUE_IDS e league = Some i"
    and "status_code (net e (''competitions/'' @ str_int i)) = 200"
    and "currentMatchday (json (net e (''competitions/'' @ str_int i))) = Some current"
  shows "(current < matchday \<longrightarrow>
            get_matchday_standings e league w extended matchday =
              ([Requests_get (BASE_URL @ ''competitions/'' @ str_int i),
                Secho (''The current matchday for this league is '' @ str_int current
                       @ '', introduce a value that is less than or equal to it.'')],
               Inr ()))
       \<and> (matchday \<le> current \<longrightarrow>
            take 2 (fst (get_matchday_standings e league w extended matchday)) =
              [Requests_get (BASE_URL @ ''competitions/'' @ str_int i),
               Requests_get (BASE_URL @ ''competitions/'' @ str_int i
                             @ ''/leagueTable/?matchday='' @ str_int matchday)])"
  using assms
  by (simp add: get_matchday_standings_def api_get_def get_response_def except_api_def
      split: exn.splits)

theorem matchday_guard_witness:
  "LEAGUE_IDS example_env ''EPL'' = Some 426
   \<and> status_code (net example_env (''competitions/'' @ str_int 426)) = 200
   \<and> currentMatchday (json (net example_env (''competitions/'' @ str_int 426))) = Some 10
   \<and> get_matchday_standings example_env ''EPL'' ''stdout'' False 12 =
       ([Requests_get ''http://api.football-data.org/v1/competitions/426'',
         Secho ''The current matchday for this league is 10, introduce a value that is less than or equal to it.''],
        Inr ())
   \<and> take 2 (fst (get_matchday_standings example_env ''EPL'' ''stdout'' False 3)) =
       [Requests_get ''http://api.football-data.org/v1/competitions/426'',
        Requests_get ''http://api.football-data.org/v1/competitions/426/leagueTable/?matchday=3'']"
proof -
  have a: "LEAGUE_IDS example_env ''EPL'' = Some 426"
    by (simp add: example_env_def)
  have s: "str_int 426 = ''426''" "str_int 10 = ''10''" "str_int 12 = ''12''" "str_int 3 = ''3''"
    by (simp_all add: str_int_def str_nat.simps)
  have b: "status_code (net example_env (''competitions/'' @ str_int 426)) = 200"
    by (simp add: s example_env_def example_net_def)
  have c: "currentMatchday (json (net example_env (''competitions/'' @ str_int 426))) = Some 10"
    by (simp add: s example_env_def example_net_def example_body_def)
  show ?thesis
    using a b c matchday_guard [OF a b c, of 12 "''stdout''" False]
      matchday_guard [OF a b c, of 3 "''stdout''" False]
    by (simp add: s BASE_URL_def)
qed

subsection \<open>The live handlers\<close>

text \<open>Every call of a live handler that is allowed a request starts with the request.\<close>

lemma length_refresh_banner: "length (refresh_banner r :: 'w event list) = 6"
  by (simp add: refresh_banner_def)

lemma get_live_scores_first:
  "take 1 (fst (get_live_scores (Suc fuel) e n w fmt refresh)) = [Requests_get LIVE_URL]"
  by (simp add: Let_def split: prod.splits)

lemma get_live_league_first:
  "take 1 (fst (get_live_league (Suc fuel) e n w fmt league refresh)) =
     [Requests_get LIVE_LEAGUES_URL]"
  by (simp add: Let_def split: prod.splits sum.splits)

lemma take_1_Cons: "take 1 xs = [x] \<Longrightarrow> \<exists>ys. xs = x # ys"
  by (cases xs) auto

text \<open>
  C5. When the live service answers 200 with a list of games that is not empty, and
  the league has a name in LEAGUE_NAMES: the games kept by get_live_league are those
  whose league is that name, in their order, each with the league code as its league.
  If none is kept, the handler prints that there is no live action for the league and
  returns without a call of the writer; otherwise its second event is the call of
  writer.live_scores with exactly the kept games.
\<close>

theorem live_league_filter:
  assumes "live_status (live_net e n) = 200"
    and "games (live_json (live_net e n)) \<noteq> []"
    and "LEAGUE_NAMES e league = Some nm"
  shows "let kept = map (\<lambda>g. g\<lparr>g_league := league\<rparr>)
                      (filter (\<lambda>g. g_league g = nm) (games (live_json (live_net e n))))
         in (kept = [] \<longrightarrow>
               get_live_league (Suc fuel) e n w fmt league refresh =
                 ([Requests_get LIVE_LEAGUES_URL,
                   Secho (''No live action currently for '' @ league @ ''.'')],
                  Some (Inr ())))
          \<and> (kept \<noteq> [] \<longrightarrow>
               take 2 (fst (get_live_league (Suc fuel) e n w fmt league refresh)) =
                 [Requests_get LIVE_LEAGUES_URL,
                  Writer_call w (Live_scores \<lparr>games = kept, other = []\<rparr> fmt)])"
  using assms
  by (simp add: Let_def filter_games_acc [where acc = "[]", simplified] split: prod.splits)

theorem live_league_filter_witness:
  "live_status (live_net example_env 0) = 200
   \<and> games (live_json (live_net example_env 0)) \<noteq> []
   \<and> LEAGUE_NAMES example_env ''EPL'' = Some ''Premier League''
   \<and> LEAGUE_NAMES example_env ''BL'' = Some ''Bundesliga''
   \<and> take 2 (fst (get_live_league 1 example_env 0 ''stdout'' False ''EPL'' 0)) =
       [Requests_get ''http://soccer-cli.appspot.com/'',
        Writer_call ''stdout''
          (Live_scores
             \<lparr>games = [\<lparr>g_league = ''EPL'', g_fields = [(''homeTeamName'', ''Arsenal'')]\<rparr>,
                       \<lparr>g_league = ''EPL'', g_fields = [(''homeTeamName'', ''Everton'')]\<rparr>],
              other = []\<rparr>
             False)]
   \<and> get_live_league 1 example_env 0 ''stdout'' False ''BL'' 0 =
       ([Requests_get ''http://soccer-cli.appspot.com/'',
         Secho ''No live action currently for BL.''],
        Some (Inr ()))"
proof -
  have a: "live_status (live_net example_env 0) = 200"
    by (simp add: example_env_def example_live_def)
  have b: "games (live_json (live_net example_env 0)) \<noteq> []"
    by (simp add: example_env_def example_live_def example_games_def)
  have c: "LEAGUE_NAMES example_env ''EPL'' = Some ''Premier League''"
    by (simp add: example_env_def)
  have d: "LEAGUE_NAMES example_env ''BL'' = Some ''Bundesliga''"
    by (simp add: example_env_def)
  have g: "games (live_json (live_net example_env 0)) = example_games"
    by (simp add: example_env_def example_live_def)
  show ?thesis
    using a b c d
      live_league_filter [OF a b c, of 0 "''stdout''" False 0]
      live_league_filter [OF a b d, of 0 "''stdout''" False 0]
    by (simp add: g example_games_def LIVE_LEAGUES_URL_def Let_def)
qed

text \<open>
  C10. When the live service answers 200 with a list of games that is not empty,
  get_live_scores passes every game to writer.live_scores, in the same order: a game
  whose league is a key of LEAGUE_KEYS with the value as its league, any other game
  unchanged.
\<close>

theorem live_scores_forward_all:
  assumes "live_status (live_net e n) = 200"
    and "games (live_json (live_net e n)) \<noteq> []"
  shows "take 2 (fst (get_live_scores (Suc fuel) e n w fmt refresh)) =
           [Requests_get LIVE_URL,
            Writer_call w
              (Live_scores
                 ((live_json (live_net e n))
                    \<lparr>games := map (\<lambda>g. case LEAGUE_KEYS e (g_league g) of
                                         Some k \<Rightarrow> g\<lparr>g_league := k\<rparr>
                                       | None \<Rightarrow> g)
                                 (games (live_json (live_net e n)))\<rparr>)
                 fmt)]"
  using assms
  by (simp add: Let_def relabel_games_map split: prod.splits)

theorem live_scores_forward_all_witness:
  "live_status (live_net example_env 0) = 200
   \<and> games (live_json (live_net example_env 0)) \<noteq> []
   \<and> take 2 (fst (get_live_scores 1 example_env 0 ''stdout'' False 0)) =
       [Requests_get ''http://soccer-cli.appspot.com/'',
        Writer_call ''stdout''
          (Live_scores
             \<lparr>games = [\<lparr>g_league = ''EPL'', g_fields = [(''homeTeamName'', ''Arsenal'')]\<rparr>,
                       \<lparr>g_league = ''Friendly'', g_fields = [(''homeTeamName'', ''Ajax'')]\<rparr>,
                       \<lparr>g_league = ''EPL'', g_fields = [(''homeTeamName'', ''Everton'')]\<rparr>],
              other = []\<rparr>
             False)]"
proof -
  have a: "live_status (live_net example_env 0) = 200"
    by (simp add: example_env_def example_live_def)
  have b: "games (live_json (live_net example_env 0)) \<noteq> []"
    by (simp add: example_env_def example_live_def example_games_def)
  have g: "live_json (live_net example_env 0) = \<lparr>games = example_games, other = []\<rparr>"
    by (simp add: example_env_def example_live_def)
  have k: "LEAGUE_KEYS example_env = [''Premier League'' \<mapsto> ''EPL'']"
    by (simp add: example_env_def)
  show ?thesis
    using a b live_scores_forward_all [OF a b, of 0 "''stdout''" False 0]
    by (simp add: g k example_games_def LIVE_URL_def)
qed

subsection \<open>The refresh interval\<close>

text \<open>
  With a refresh interval that is not positive a live handler returns after one
  request, at most one call of the writer and no sleep, whatever the service answers.
\<close>

lemma single_shot_live_scores:
  "refresh \<le> 0 \<Longrightarrow>
   snd (get_live_scores (Suc fuel) e n w fmt refresh) = Some (Inr ())
   \<and> length (filter is_request (fst (get_live_scores (Suc fuel) e n w fmt refresh))) = 1
   \<and> length (filter is_writer_call (fst (get_live_scores (Suc fuel) e n w fmt refresh))) \<le> 1
   \<and> (\<forall>s. Sleep s \<notin> set (fst (get_live_scores (Suc fuel) e n w fmt refresh)))"
  by (simp add: Let_def)

lemma single_shot_live_league:
  "refresh \<le> 0 \<Longrightarrow>
   snd (get_live_league (Suc fuel) e n w fmt league refresh) \<noteq> None
   \<and> length (filter is_request (fst (get_live_league (Suc fuel) e n w fmt league refresh))) = 1
   \<and> length (filter is_writer_call
                (fst (get_live_league (Suc fuel) e n w fmt league refresh))) \<le> 1
   \<and> (\<forall>s. Sleep s \<notin> set (fst (get_live_league (Suc fuel) e n w fmt league refresh)))"
  by (simp add: Let_def split: sum.splits)

text \<open>
  C6. After a call of the writer (the service answered 200 with games, and for
  get_live_league some game is kept): with a positive refresh interval the handler
  prints the announcement, sleeps for exactly the interval and then makes the next
  request; with an interval that is zero or negative the request and the call of the
  writer are all its events and it returns.
\<close>

theorem refresh_cycle:
  assumes "live_status (live_net e n) = 200"
    and "games (live_json (live_net e n)) \<noteq> []"
  shows "(0 < refresh \<longrightarrow>
            take 10 (fst (get_live_scores (Suc (Suc fuel)) e n w fmt refresh)) =
              [Requests_get LIVE_URL,
               Writer_call w
                 (Live_scores
                    ((live_json (live_net e n))
                       \<lparr>games := relabel_games (LEAGUE_KEYS e)
                                   (games (live_json (live_net e n)))\<rparr>) fmt)]
              @ refresh_banner refresh @ [Sleep refresh, Requests_get LIVE_URL])
       \<and> (refresh \<le> 0 \<longrightarrow>
            get_live_scores (Suc fuel) e n w fmt refresh =
              ([Requests_get LIVE_URL,
                Writer_call w
                  (Live_scores
                     ((live_json (live_net e n))
                        \<lparr>games := relabel_games (LEAGUE_KEYS e)
                                    (games (live_json (live_net e n)))\<rparr>) fmt)],
               Some (Inr ())))
       \<and> (let kept = map (\<lambda>g. g\<lparr>g_league := league\<rparr>)
                        (filter (\<lambda>g. g_league g = nm) (games (live_json (live_net e n))))
          in LEAGUE_NAMES e league = Some nm \<and> kept \<noteq> [] \<longrightarrow>
            (0 < refresh \<longrightarrow>
               take 10 (fst (get_live_league (Suc (Suc fuel)) e n w fmt league refresh)) =
                 [Requests_get LIVE_LEAGUES_URL,
                  Writer_call w (Live_scores \<lparr>games = kept, other = []\<rparr> fmt)]
                 @ refresh_banner refresh @ [Sleep refresh, Requests_get LIVE_LEAGUES_URL])
          \<and> (refresh \<le> 0 \<longrightarrow>
               get_live_league (Suc fuel) e n w fmt league refresh =
                 ([Requests_get LIVE_LEAGUES_URL,
                   Writer_call w (Live_scores \<lparr>games = kept, other = []\<rparr> fmt)],
                  Some (Inr ()))))"
  unfolding Let_def
proof (intro conjI impI)
  assume r: "0 < refresh"
  obtain rest where rest:
    "fst (get_live_scores (Suc fuel) e (Suc n) w fmt refresh) = Requests_get LIVE_URL # rest"
    using take_1_Cons [OF get_live_scores_first [of fuel e "Suc n" w fmt refresh]] by blast
  have "fst (get_live_scores (Suc (Suc fuel)) e n w fmt refresh) =
          [Requests_get LIVE_URL,
           Writer_call w
             (Live_scores
                ((live_json (live_net e n))
                   \<lparr>games := relabel_games (LEAGUE_KEYS e)
                               (games (live_json (live_net e n)))\<rparr>) fmt)]
          @ refresh_banner refresh @ Sleep refresh # Requests_get LIVE_URL # rest"
    using assms r rest
    by (simp add: get_live_scores.simps(2) [of "Suc fuel" e n] Let_def case_prod_beta
        del: get_live_scores.simps)
  then show "take 10 (fst (get_live_scores (Suc (Suc fuel)) e n w fmt refresh)) =
          [Requests_get LIVE_URL,
           Writer_call w
             (Live_scores
                ((live_json (live_net e n))
                   \<lparr>games := relabel_games (LEAGUE_KEYS e)
                               (games (live_json (live_net e n)))\<rparr>) fmt)]
          @ refresh_banner refresh @ [Sleep refresh, Requests_get LIVE_URL]"
    by (simp add: refresh_banner_def)
next
  assume "refresh \<le> 0"
  with assms show "get_live_scores (Suc fuel) e n w fmt refresh =
              ([Requests_get LIVE_URL,
                Writer_call w
                  (Live_scores
                     ((live_json (live_net e n))
                        \<lparr>games := relabel_games (LEAGUE_KEYS e)
                                    (games (live_json (live_net e n)))\<rparr>) fmt)],
               Some (Inr ()))"
    by (simp add: Let_def)
next
  let ?kept = "map (\<lambda>g. g\<lparr>g_league := league\<rparr>)
                 (filter (\<lambda>g. g_league g = nm) (games (live_json (live_net e n))))"
  assume k: "LEAGUE_NAMES e league = Some nm \<and> ?kept \<noteq> []" and r: "0 < refresh"
  have f: "filter_games (LEAGUE_NAMES e) league (games (live_json (live_net e n))) []
             = Inr ?kept"
    using k filter_games_acc [of "LEAGUE_NAMES e" league nm _ "[]"] by simp
  obtain rest where rest:
    "fst (get_live_league (Suc fuel) e (Suc n) w fmt league refresh) =
       Requests_get LIVE_LEAGUES_URL # rest"
    using take_1_Cons [OF get_live_league_first [of fuel e "Suc n" w fmt league refresh]]
    by blast
  have "fst (get_live_league (Suc (Suc fuel)) e n w fmt league refresh) =
          [Requests_get LIVE_LEAGUES_URL,
           Writer_call w (Live_scores \<lparr>games = ?kept, other = []\<rparr> fmt)]
          @ refresh_banner refresh @ Sleep refresh # Requests_get LIVE_LEAGUES_URL # rest"
    using assms r rest k f
    by (simp add: get_live_league.simps(2) [of "Suc fuel" e n] Let_def case_prod_beta
        del: get_live_league.simps)
  then show "take 10 (fst (get_live_league (Suc (Suc fuel)) e n w fmt league refresh)) =
                 [Requests_get LIVE_LEAGUES_URL,
                  Writer_call w (Live_scores \<lparr>games = ?kept, other = []\<rparr> fmt)]
                 @ refresh_banner refresh @ [Sleep refresh, Requests_get LIVE_LEAGUES_URL]"
    by (simp add: refresh_banner_def)
next
  let ?kept = "map (\<lambda>g. g\<lparr>g_league := league\<rparr>)
                 (filter (\<lambda>g. g_league g = nm) (games (live_json (live_net e n))))"
  assume k: "LEAGUE_NAMES e league = Some nm \<and> ?kept \<noteq> []" and r: "refresh \<le> 0"
  have f: "filter_games (LEAGUE_NAMES e) league (games (live_json (live_net e n))) []
             = Inr ?kept"
    using k filter_games_acc [of "LEAGUE_NAMES e" league nm _ "[]"] by simp
  with assms k r show "get_live_league (Suc fuel) e n w fmt league refresh =
                 ([Requests_get LIVE_LEAGUES_URL,
                   Writer_call w (Live_scores \<lparr>games = ?kept, other = []\<rparr> fmt)],
                  Some (Inr ()))"
    by (simp add: Let_def)
qed

theorem refresh_cycle_witness:
  "live_status (live_net example_env 0) = 200
   \<and> games (live_json (live_net example_env 0)) \<noteq> []
   \<and> LEAGUE_NAMES example_env ''EPL'' = Some ''Premier League''
   \<and> take 10 (fst (get_live_scores 2 example_env 0 ''stdout'' False 30)) =
       [Requests_get ''http://soccer-cli.appspot.com/'',
        Writer_call ''stdout''
          (Live_scores
             \<lparr>games = [\<lparr>g_league = ''EPL'', g_fields = [(''homeTeamName'', ''Arsenal'')]\<rparr>,
                       \<lparr>g_league = ''Friendly'', g_fields = [(''homeTeamName'', ''Ajax'')]\<rparr>,
                       \<lparr>g_league = ''EPL'', g_fields = [(''homeTeamName'', ''Everton'')]\<rparr>],
              other = []\<rparr>
             False),
        Echo, Secho ''-------- Next refresh in '', Secho ''30 seconds'', Secho '' --------'',
        Echo, Echo, Sleep 30, Requests_get ''http://soccer-cli.appspot.com/'']
   \<and> get_live_scores 1 example_env 0 ''stdout'' False (- 1) =
       ([Requests_get ''http://soccer-cli.appspot.com/'',
         Writer_call ''stdout''
          (Live_scores
             \<lparr>games = [\<lparr>g_league = ''EPL'', g_fields = [(''homeTeamName'', ''Arsenal'')]\<rparr>,
                       \<lparr>g_league = ''Friendly'', g_fields = [(''homeTeamName'', ''Ajax'')]\<rparr>,
                       \<lparr>g_league = ''EPL'', g_fields = [(''homeTeamName'', ''Everton'')]\<rparr>],
              other = []\<rparr>
             False)],
        Some (Inr ()))
   \<and> take 10 (fst (get_live_league 2 example_env 0 ''stdout'' False ''EPL'' 30)) =
       [Requests_get ''http://soccer-cli.appspot.com/'',
        Writer_call ''stdout''
          (Live_scores
             \<lparr>games = [\<lparr>g_league = ''EPL'', g_fields = [(''homeTeamName'', ''Arsenal'')]\<rparr>,
                       \<lparr>g_league = ''EPL'', g_fields = [(''homeTeamName'', ''Everton'')]\<rparr>],
              other = []\<rparr>
             False),
        Echo, Secho ''-------- Next refresh in '', Secho ''30 seconds'', Secho '' --------'',
        Echo, Echo, Sleep 30, Requests_get ''http://soccer-cli.appspot.com/'']
   \<and> get_live_league 1 example_env 0 ''stdout'' False ''EPL'' (- 1) =
       ([Requests_get ''http://soccer-cli.appspot.com/'',
         Writer_call ''stdout''
          (Live_scores
             \<lparr>games = [\<lparr>g_league = ''EPL'', g_fields = [(''homeTeamName'', ''Arsenal'')]\<rparr>,
                       \<lparr>g_league = ''EPL'', g_fields = [(''homeTeamName'', ''Everton'')]\<rparr>],
              other = []\<rparr>
             False)],
        Some (Inr ()))"
proof -
  have a: "live_status (live_net example_env 0) = 200"
    by (simp add: example_env_def example_live_def)
  have b: "games (live_json (live_net example_env 0)) \<noteq> []"
    by (simp add: example_env_def example_live_def example_games_def)
  have c: "LEAGUE_NAMES example_env ''EPL'' = Some ''Premier League''"
    by (simp add: example_env_def)
  have g: "live_json (live_net example_env 0) = \<lparr>games = example_games, other = []\<rparr>"
    by (simp add: example_env_def example_live_def)
  have k: "LEAGUE_KEYS example_env = [''Premier League'' \<mapsto> ''EPL'']"
    by (simp add: example_env_def)
  have s: "str_int 30 = ''30''"
    by (simp add: str_int_def str_nat.simps)
  have one: "Suc 0 = 1" "Suc (Suc 0) = 2"
    by simp_all
  show ?thesis
    using a b c
      refresh_cycle [OF a b, of 30 0 "''stdout''" False "''EPL''" "''Premier League''"]
      refresh_cycle [OF a b, of "- 1" 0 "''stdout''" False "''EPL''" "''Premier League''"]
    by (simp add: g k s c example_games_def LIVE_URL_def LIVE_LEAGUES_URL_def
        refresh_banner_def numeral_2_eq_2 del: get_live_scores.simps get_live_league.simps)
qed

subsection \<open>The command\<close>






lemma get_standings_outcome:
  "snd (get_standings e league w extended) \<noteq> Inl (IncorrectParametersException m)"
  by (simp add: get_standings_def api_get_def get_response_def except_api_def
      split: option.splits)

text \<open>
  C9. For a request of standings with a league and a matchday of 0 or less (the
  default is -1), main runs get_standings, the handler of the current table, and
  nothing else after the writer is built: the matchday is not looked at again, and no
  message about it is printed.
\<close>

theorem standings_nonpositive_matchday:
  assumes "o_standings opts" and "\<not> o_listcodes opts" and "\<not> o_listleagues opts"
    and "\<not> o_live opts"
    and "o_league opts = Some code" and "code \<noteq> []"
    and "o_matchday opts \<le> 0"
    and "\<not> (o_output_format opts = ''stdout'' \<and> truthy (o_output_file opts))"
    and "get_writer e (o_output_format opts) (o_output_file opts) = Inr w"
  shows "main fuel e opts =
           (Get_writer (o_output_format opts) (o_output_file opts)
              # fst (get_standings e code w (o_extended opts)),
            Some (snd (get_standings e code w (o_extended opts))))"
proof -
  have "dispatch fuel e opts w = finished (get_standings e code w (o_extended opts))"
    using assms by (simp add: dispatch_def truthy_def)
  then have "main_try fuel e opts =
           (Get_writer (o_output_format opts) (o_output_file opts)
              # fst (get_standings e code w (o_extended opts)),
            Some (snd (get_standings e code w (o_extended opts))))"
    using assms by (auto simp add: main_try_def finished_def)
  then show ?thesis
    using get_standings_outcome [of e code w "o_extended opts"]
    by (auto simp add: main_def split: option.splits sum.splits exn.splits)
qed

theorem standings_nonpositive_matchday_witness:
  "o_standings (example_options\<lparr>o_standings := True, o_league := Some ''EPL''\<rparr>)
   \<and> o_league (example_options\<lparr>o_standings := True, o_league := Some ''EPL''\<rparr>)
       = Some ''EPL''
   \<and> o_matchday (example_options\<lparr>o_standings := True, o_league := Some ''EPL''\<rparr>) = - 1
   \<and> get_writer example_env ''stdout'' None = Inr ''stdout''
   \<and> main 1 example_env (example_options\<lparr>o_standings := True, o_league := Some ''EPL''\<rparr>) =
       ([Get_writer ''stdout'' None,
         Requests_get ''http://api.football-data.org/v1/competitions/426/leagueTable'',
         Writer_call ''stdout''
           (Standings \<lparr>fixtures = None, currentMatchday = None, count = None,
                        rest = [(''leagueCaption'', ''Premier League'')]\<rparr> ''EPL'')],
        Some (Inr ()))"
proof -
  let ?o = "example_options\<lparr>o_standings := True, o_league := Some ''EPL''\<rparr>"
  have a: "o_standings ?o" "\<not> o_listcodes ?o" "\<not> o_listleagues ?o" "\<not> o_live ?o"
    "o_league ?o = Some ''EPL''" "''EPL'' \<noteq> []" "o_matchday ?o \<le> 0"
    "\<not> (o_output_format ?o = ''stdout'' \<and> truthy (o_output_file ?o))"
    by (simp_all add: example_options_def truthy_def)
  have f: "o_output_format ?o = ''stdout''" "o_output_file ?o = None"
    "o_extended ?o = False" "o_matchday ?o = - 1"
    by (simp_all add: example_options_def)
  have b: "get_writer example_env (o_output_format ?o) (o_output_file ?o) = Inr ''stdout''"
    by (simp add: f example_env_def)
  have s: "str_int 426 = ''426''"
    by (simp add: str_int_def str_nat.simps)
  have g: "get_standings example_env ''EPL'' ''stdout'' False =
       ([Requests_get ''http://api.football-data.org/v1/competitions/426/leagueTable'',
         Writer_call ''stdout''
           (Standings \<lparr>fixtures = None, currentMatchday = None, count = None,
                        rest = [(''leagueCaption'', ''Premier League'')]\<rparr> ''EPL'')],
        Inr ())"
    by (simp add: get_standings_def example_env_def s api_get_def BASE_URL_def
        example_net_def get_response_def example_body_def write_standings_def)
  show ?thesis
    using a b standings_nonpositive_matchday [OF a b, of 1]
    by (simp add: f g)
qed

end
